theory Spec2Isabelle
  imports Complex_Main "HOL-Library.Char_ord" "HOL-Library.List_Lexorder" "HOL-Library.AList"
begin

section \<open>JavaScript values used by the bot\<close>

text \<open>
  A \<^verbatim>\<open>bigint\<close> is an unbounded integer (\<^typ>\<open>int\<close>). Its division truncates
  toward zero and throws a RangeError on a zero divisor; the thrown error is a value of
  \<open>js_error\<close> in the functions that divide.
\<close>

datatype js_error = RangeError

definition bigint_div :: "int \<Rightarrow> int \<Rightarrow> int" where
  "bigint_div a b = sgn a * sgn b * (\<bar>a\<bar> div \<bar>b\<bar>)"

text \<open>
  A JavaScript \<^verbatim>\<open>number\<close> is a double. For the edge weights and the confidence, which
  only steer and rank the search, the model keeps the special values and takes the finite
  ones as exact reals: the rounding of those operations is not modelled.
\<close>

datatype number = Num real | PosInf | NegInf | NaN

fun number_add :: "number \<Rightarrow> number \<Rightarrow> number" where
  "number_add NaN _ = NaN"
| "number_add _ NaN = NaN"
| "number_add PosInf NegInf = NaN"
| "number_add NegInf PosInf = NaN"
| "number_add PosInf _ = PosInf"
| "number_add _ PosInf = PosInf"
| "number_add NegInf _ = NegInf"
| "number_add _ NegInf = NegInf"
| "number_add (Num a) (Num b) = Num (a + b)"

fun number_less :: "number \<Rightarrow> number \<Rightarrow> bool" where
  "number_less NaN _ = False"
| "number_less _ NaN = False"
| "number_less (Num a) (Num b) = (a < b)"
| "number_less (Num a) PosInf = True"
| "number_less NegInf (Num b) = True"
| "number_less NegInf PosInf = True"
| "number_less _ _ = False"

fun number_le :: "number \<Rightarrow> number \<Rightarrow> bool" where
  "number_le NaN _ = False"
| "number_le _ NaN = False"
| "number_le (Num a) (Num b) = (a \<le> b)"
| "number_le NegInf _ = True"
| "number_le _ PosInf = True"
| "number_le _ _ = False"

text \<open>\<^verbatim>\<open>Number(a) / Number(b)\<close> for bigints \<open>a\<close> and \<open>b\<close>.\<close>

definition number_div :: "int \<Rightarrow> int \<Rightarrow> number" where
  "number_div a b =
     (if b = 0 then (if a = 0 then NaN else if 0 < a then PosInf else NegInf)
      else Num (real_of_int a / real_of_int b))"

text \<open>
  Where a threshold on doubles decides what the bot does (the USD valuation of an
  opportunity), the arithmetic is IEEE 754 binary64 with round-to-nearest, ties to even, as
  ECMAScript prescribes. A finite double is a pair \<open>(m, e)\<close> of integers with the value
  \<open>m \<cdot> 2^e\<close>. \<open>roundRatio p q k\<close> is the double nearest to \<open>(p / q) \<cdot> 2^k\<close> for \<open>q > 0\<close>: a
  significand of 53 bits, exponents from -1074 up. Results beyond the largest double (about
  \<open>1.8 \<cdot> 10^308\<close>), which JavaScript gives as Infinity, are outside this model; the amounts of
  an opportunity are far below.
\<close>

type_synonym double = "int \<times> int"

text \<open>The number of bits of a positive integer.\<close>

function bitLength :: "int \<Rightarrow> int" where
  "bitLength n = (if n \<le> 0 then 0 else 1 + bitLength (n div 2))"
  by pat_completeness auto
termination
  by (relation "measure nat") auto

declare bitLength.simps [simp del]

definition roundHalfEven :: "int \<Rightarrow> int \<Rightarrow> int" where
  "roundHalfEven num den =
     (let f = num div den; r = num mod den
      in if 2 * r < den then f else if den < 2 * r then f + 1
         else if even f then f else f + 1)"

definition roundRatio :: "int \<Rightarrow> int \<Rightarrow> int \<Rightarrow> double" where
  "roundRatio p q k =
     (if p = 0 then (0, 0)
      else
        (let a = \<bar>p\<bar>;
             d = bitLength a - bitLength q;
             l = (if (if 0 \<le> d then q * 2 ^ nat d \<le> a else q \<le> a * 2 ^ nat (- d))
                  then d else d - 1);
             e = max (l + k) (- 1022) - 52;
             s = k - e;
             m = (if 0 \<le> s then roundHalfEven (a * 2 ^ nat s) q
                  else roundHalfEven a (q * 2 ^ nat (- s)))
         in (sgn p * m, e)))"

text \<open>\<^verbatim>\<open>Number(n)\<close> for a bigint, and \<^verbatim>\<open>/\<close>, \<^verbatim>\<open>*\<close>, \<^verbatim>\<open>-\<close> on doubles (the divisor not zero).\<close>

definition double_of_bigint :: "int \<Rightarrow> double" where
  "double_of_bigint n = roundRatio n 1 0"

definition double_div :: "double \<Rightarrow> double \<Rightarrow> double" where
  "double_div x y = roundRatio (fst x * sgn (fst y)) \<bar>fst y\<bar> (snd x - snd y)"

definition double_mul :: "double \<Rightarrow> double \<Rightarrow> double" where
  "double_mul x y = roundRatio (fst x * fst y) 1 (snd x + snd y)"

definition double_sub :: "double \<Rightarrow> double \<Rightarrow> double" where
  "double_sub x y =
     (let e = min (snd x) (snd y)
      in roundRatio (fst x * 2 ^ nat (snd x - e) - fst y * 2 ^ nat (snd y - e)) 1 e)"

text \<open>The real number a double stands for.\<close>

definition double_value :: "double \<Rightarrow> real" where
  "double_value x =
     (if 0 \<le> snd x then of_int (fst x * 2 ^ nat (snd x))
      else of_int (fst x) / of_int (2 ^ nat (- snd x)))"

type_synonym Address = string

text \<open>\<^verbatim>\<open>String.prototype.toLowerCase\<close> on the ASCII letters an address is written in.\<close>

definition lower_char :: "char \<Rightarrow> char" where
  "lower_char c =
     (if CHR ''A'' \<le> c \<and> c \<le> CHR ''Z'' then char_of (of_char c + (32::nat)) else c)"

definition toLowerCase :: "string \<Rightarrow> string" where
  "toLowerCase s = map lower_char s"

section \<open>The arbitrage detector\<close>

record RateResult =
  amountOut :: int
  rate :: number

text \<open>\<^verbatim>\<open>ArbitrageDetector.calculateRate\<close>.\<close>

definition calculateRate :: "int \<Rightarrow> int \<Rightarrow> int \<Rightarrow> int \<Rightarrow> js_error + RateResult" where
  "calculateRate reserveIn reserveOut amountIn feeBps =
     (let feeMultiplier = 10000 - feeBps;
          amountInWithFee = amountIn * feeMultiplier;
          numerator = amountInWithFee * reserveOut;
          denominator = reserveIn * 10000 + amountInWithFee
      in if denominator = 0 then Inl RangeError
         else Inr \<lparr>amountOut = bigint_div numerator denominator,
                   rate = number_div (bigint_div numerator denominator) amountIn\<rparr>)"

text \<open>\<^verbatim>\<open>ArbitrageDetector.calculateWeight\<close>: \<^verbatim>\<open>-Math.log(rate)\<close>, or Infinity.\<close>

fun calculateWeight :: "number \<Rightarrow> number" where
  "calculateWeight (Num r) = (if r \<le> 0 then PosInf else Num (- ln r))"
| "calculateWeight NegInf = PosInf"
| "calculateWeight PosInf = NegInf"
| "calculateWeight NaN = NaN"

datatype DexType = UniswapV2 | UniswapV3 | Curve | Velodrome

text \<open>
  \<^verbatim>\<open>interface Edge\<close>. The fields \<^verbatim>\<open>from\<close>, \<^verbatim>\<open>to\<close>, \<^verbatim>\<open>pool\<close>, ... carry the prefix
  \<open>edge_\<close>, since several interfaces of the bot share field names.
\<close>

record Edge =
  edge_from :: Address
  edge_to :: Address
  edge_pool :: Address
  edge_dex :: string
  edge_dexType :: DexType
  edge_router :: Address
  weight :: number
  edge_reserve0 :: int
  edge_reserve1 :: int
  edge_fee :: int

text \<open>
  \<^verbatim>\<open>interface Graph\<close>. A JavaScript Set and Map iterate in insertion order: the vertices
  are a list without repetition, the edges an association list keyed by source token.
\<close>

record Graph =
  vertices :: "Address list"
  edges :: "(Address \<times> Edge list) list"

record ArbitrageDetector =
  graph :: Graph
  chainId :: int
  minProfitBps :: int

text \<open>\<^verbatim>\<open>new ArbitrageDetector(chainId, minProfitBps = 10)\<close>.\<close>

definition newDetector :: "int \<Rightarrow> int \<Rightarrow> ArbitrageDetector" where
  "newDetector c bps = \<lparr>graph = \<lparr>vertices = [], edges = []\<rparr>, chainId = c, minProfitBps = bps\<rparr>"

definition set_add :: "'a \<Rightarrow> 'a list \<Rightarrow> 'a list" where
  "set_add x xs = (if x \<in> set xs then xs else xs @ [x])"

text \<open>\<^verbatim>\<open>findIndex\<close> followed by \<^verbatim>\<open>splice(index, 1)\<close>: the first match is removed.\<close>

fun remove_first :: "('a \<Rightarrow> bool) \<Rightarrow> 'a list \<Rightarrow> 'a list" where
  "remove_first P [] = []"
| "remove_first P (x # xs) = (if P x then xs else x # remove_first P xs)"

definition edges_get :: "Graph \<Rightarrow> Address \<Rightarrow> Edge list" where
  "edges_get g a = (case map_of (edges g) a of Some es \<Rightarrow> es | None \<Rightarrow> [])"

text \<open>\<^verbatim>\<open>ArbitrageDetector.addEdge\<close>.\<close>

definition addEdge :: "Edge \<Rightarrow> Graph \<Rightarrow> Graph" where
  "addEdge edge g =
     (let es = remove_first (\<lambda>e. edge_to e = edge_to edge \<and> edge_pool e = edge_pool edge)
                 (edges_get g (edge_from edge))
      in \<lparr>vertices = set_add (edge_to edge) (set_add (edge_from edge) (vertices g)),
          edges = AList.update (edge_from edge) (es @ [edge]) (edges g)\<rparr>)"

subsection \<open>Bellman-Ford relaxation\<close>

type_synonym bf_state = "(Address \<times> number) list \<times> (Address \<times> Edge option) list \<times> bool"

definition relax_edge :: "number \<Rightarrow> bf_state \<Rightarrow> Edge \<Rightarrow> bf_state" where
  "relax_edge distFrom s edge =
     (case s of (distance, predecessor, updated) \<Rightarrow>
        (case map_of distance (edge_to edge) of
           None \<Rightarrow> s
         | Some distTo \<Rightarrow>
             if number_less (number_add distFrom (weight edge)) distTo
             then (AList.update (edge_to edge) (number_add distFrom (weight edge)) distance,
                   AList.update (edge_to edge) (Some edge) predecessor, True)
             else s))"

text \<open>One entry of \<^verbatim>\<open>graph.edges\<close>: the distance of the source is read once, before its edges.\<close>

definition relax_group :: "bf_state \<Rightarrow> Address \<times> Edge list \<Rightarrow> bf_state" where
  "relax_group s grp =
     (case map_of (fst s) (fst grp) of
        None \<Rightarrow> s
      | Some distFrom \<Rightarrow> if distFrom = PosInf then s else foldl (relax_edge distFrom) s (snd grp))"

definition relax_pass ::
  "Graph \<Rightarrow> (Address \<times> number) list \<times> (Address \<times> Edge option) list \<Rightarrow> bf_state" where
  "relax_pass g s = foldl relax_group (fst s, snd s, False) (edges g)"

text \<open>The loop \<^verbatim>\<open>for (i = 0; i < n - 1; i++)\<close>, left early when a pass updates nothing.\<close>

fun relax_loop ::
  "nat \<Rightarrow> Graph \<Rightarrow> (Address \<times> number) list \<times> (Address \<times> Edge option) list
     \<Rightarrow> (Address \<times> number) list \<times> (Address \<times> Edge option) list" where
  "relax_loop 0 g s = s"
| "relax_loop (Suc k) g s =
     (case relax_pass g s of
        (distance, predecessor, updated) \<Rightarrow>
          if updated then relax_loop k g (distance, predecessor) else (distance, predecessor))"

definition negative_group :: "(Address \<times> number) list \<Rightarrow> Address list \<Rightarrow> Address \<times> Edge list \<Rightarrow> Address list" where
  "negative_group distance acc grp =
     (case map_of distance (fst grp) of
        None \<Rightarrow> acc
      | Some distFrom \<Rightarrow>
          if distFrom = PosInf then acc
          else foldl (\<lambda>acc edge.
                 case map_of distance (edge_to edge) of
                   None \<Rightarrow> acc
                 | Some distTo \<Rightarrow>
                     if number_less (number_add distFrom (weight edge)) distTo
                     then set_add (edge_to edge) acc else acc) acc (snd grp))"

definition negativeCycleVertices :: "Graph \<Rightarrow> (Address \<times> number) list \<Rightarrow> Address list" where
  "negativeCycleVertices g distance = foldl (negative_group distance) [] (edges g)"

subsection \<open>Cycle extraction\<close>

text \<open>The \<^verbatim>\<open>while (!visited.has(current))\<close> loop of \<^verbatim>\<open>extractCycle\<close>.\<close>

function extractLoop ::
  "(Address \<times> Edge option) list \<Rightarrow> Address list \<Rightarrow> Address \<Rightarrow> Edge list \<Rightarrow> Edge list \<times> Address" where
  "extractLoop predecessor visited current cycle =
     (if current \<in> set visited then (cycle, current)
      else (case map_of predecessor current of
              Some (Some edge) \<Rightarrow>
                extractLoop predecessor (current # visited) (edge_from edge) (edge # cycle)
            | _ \<Rightarrow> (cycle, current)))"
  by pat_completeness auto
termination
proof (relation "measure (\<lambda>(predecessor, visited, current, cycle).
                   card (fst ` set predecessor - set visited))")
  show "wf (measure (\<lambda>(predecessor, visited, current, cycle).
                   card (fst ` set predecessor - set visited)))"
    by simp
next
  fix predecessor :: "(Address \<times> Edge option) list"
    and visited :: "Address list" and current :: Address and cycle :: "Edge list"
    and x2 :: "Edge option" and x2a :: Edge
  assume nv: "current \<notin> set visited"
    and m: "map_of predecessor current = Some x2"
  from m have "current \<in> fst ` set predecessor"
    by (force dest: map_of_SomeD)
  with nv have "fst ` set predecessor - set (current # visited)
                  \<subset> fst ` set predecessor - set visited"
    by auto
  then have "card (fst ` set predecessor - set (current # visited))
               < card (fst ` set predecessor - set visited)"
    by (intro psubset_card_mono) auto
  then show "((predecessor, current # visited, edge_from x2a, x2a # cycle),
              (predecessor, visited, current, cycle))
             \<in> measure (\<lambda>(predecessor, visited, current, cycle).
                   card (fst ` set predecessor - set visited))"
    by simp
qed

text \<open>\<^verbatim>\<open>ArbitrageDetector.extractCycle\<close>.\<close>

definition extractCycle :: "Address \<Rightarrow> (Address \<times> Edge option) list \<Rightarrow> Edge list" where
  "extractCycle start predecessor =
     (case extractLoop predecessor [] start [] of
        (cycle, cycleStart) \<Rightarrow>
          if \<exists>e \<in> set cycle. edge_from e = cycleStart
          then dropWhile (\<lambda>e. edge_from e \<noteq> cycleStart) cycle
          else cycle)"

subsection \<open>Bounded depth-first enumeration\<close>

text \<open>
  The closure \<^verbatim>\<open>dfs\<close> of \<^verbatim>\<open>findDirectCycles\<close>. The key of an edge is the string
  \<^verbatim>\<open>from-to-pool\<close>, here the triple. \<^verbatim>\<open>visited\<close> is restored after each recursive call, so
  it is passed down and never returned; the cycles are collected in the order the source
  pushes them.
\<close>

definition edgeKey :: "Edge \<Rightarrow> Address \<times> Address \<times> Address" where
  "edgeKey edge = (edge_from edge, edge_to edge, edge_pool edge)"

function dfs ::
  "Graph \<Rightarrow> Address \<Rightarrow> nat \<Rightarrow> Address \<Rightarrow> Edge list
     \<Rightarrow> (Address \<times> Address \<times> Address) list \<Rightarrow> Edge list list" where
  "dfs g source maxHops current path visited =
     (if length path > maxHops then []
      else concat (map (\<lambda>edge.
             if edge_to edge = source \<and> length path \<ge> 2 then [path @ [edge]]
             else if edgeKey edge \<notin> set visited \<and> length path < maxHops
                  then dfs g source maxHops (edge_to edge) (path @ [edge]) (edgeKey edge # visited)
                  else [])
           (edges_get g current)))"
  by pat_completeness auto
termination
  by (relation "measure (\<lambda>(g, source, maxHops, current, path, visited). maxHops - length path)")
     auto

declare dfs.simps [simp del]

text \<open>\<^verbatim>\<open>ArbitrageDetector.findDirectCycles\<close>.\<close>

definition findDirectCycles :: "Graph \<Rightarrow> Address \<Rightarrow> nat \<Rightarrow> Edge list list" where
  "findDirectCycles g source maxHops = dfs g source maxHops source [] []"


subsection \<open>Executable quote of a cycle\<close>

text \<open>
  The \<^verbatim>\<open>data\<close> of a swap step is a hex string: empty (\<^verbatim>\<open>0x\<close>), the ABI encoding of a
  \<^verbatim>\<open>uint24\<close> fee, or the ABI encoding of a \<^verbatim>\<open>bool\<close>. The model keeps the encoded value.
\<close>

datatype swap_data = EmptyData | FeeData int | StableData bool

record SwapStep =
  router :: Address
  tokenIn :: Address
  tokenOut :: Address
  amountIn :: int
  expectedAmountOut :: int
  pool :: Address
  dexType :: DexType
  data :: swap_data

text \<open>
  \<^verbatim>\<open>interface ArbitrageOpportunity\<close>, without its \<^verbatim>\<open>id\<close> (a string built from the clock
  and \<^verbatim>\<open>Math.random\<close>). The clock \<^verbatim>\<open>Date.now()\<close> is the argument \<open>now\<close> of the functions
  that read it.
\<close>

record ArbitrageOpportunity =
  chain :: int
  path :: "SwapStep list"
  inputToken :: Address
  inputAmount :: int
  expectedOutput :: int
  expectedProfit :: int
  profitUsd :: real
  gasEstimate :: int
  gasCostUsd :: real
  netProfitUsd :: real
  confidence :: real
  timestamp :: int
  expiresAt :: int

definition edgeData :: "Edge \<Rightarrow> swap_data" where
  "edgeData edge =
     (if edge_dexType edge = UniswapV3 then FeeData (edge_fee edge)
      else if edge_dexType edge = Velodrome then StableData (edge_fee edge < 10)
      else EmptyData)"

text \<open>The reserves \<^verbatim>\<open>buildOpportunity\<close> passes to \<^verbatim>\<open>calculateRate\<close> for an edge.\<close>

definition isToken0ToToken1 :: "Edge \<Rightarrow> bool" where
  "isToken0ToToken1 edge = (toLowerCase (edge_from edge) < toLowerCase (edge_to edge))"

definition reserveIn :: "Edge \<Rightarrow> int" where
  "reserveIn edge = (if isToken0ToToken1 edge then edge_reserve0 edge else edge_reserve1 edge)"

definition reserveOut :: "Edge \<Rightarrow> int" where
  "reserveOut edge = (if isToken0ToToken1 edge then edge_reserve1 edge else edge_reserve0 edge)"

text \<open>The loop \<^verbatim>\<open>for (const edge of cycle)\<close> of \<^verbatim>\<open>buildOpportunity\<close>.\<close>

fun quoteLoop :: "Edge list \<Rightarrow> int \<Rightarrow> SwapStep list \<Rightarrow> js_error + SwapStep list \<times> int" where
  "quoteLoop [] currentAmount swapSteps = Inr (swapSteps, currentAmount)"
| "quoteLoop (edge # cycle) currentAmount swapSteps =
     (case calculateRate (reserveIn edge) (reserveOut edge) currentAmount (edge_fee edge) of
        Inl err \<Rightarrow> Inl err
      | Inr r \<Rightarrow>
          quoteLoop cycle (amountOut r)
            (swapSteps @ [\<lparr>router = edge_router edge, tokenIn = edge_from edge,
                            tokenOut = edge_to edge, amountIn = currentAmount,
                            expectedAmountOut = amountOut r, pool = edge_pool edge,
                            dexType = edge_dexType edge, data = edgeData edge\<rparr>]))"

text \<open>
  \<^verbatim>\<open>ArbitrageDetector.calculateConfidence\<close>. The bigint division by \<^verbatim>\<open>input\<close> throws
  when the input amount is zero.
\<close>

definition calculateConfidence :: "Edge list \<Rightarrow> int \<Rightarrow> int \<Rightarrow> js_error + real" where
  "calculateConfidence cycle profit input =
     (if input = 0 then Inl RangeError
      else
        (let profitBps = real_of_int (bigint_div (profit * 10000) input);
             c0 = min (profitBps / 100) 1;
             c1 = c0 * ((95 / 100) powi (int (length cycle) - 2));
             c2 = foldl (\<lambda>c edge.
                    if (if edge_reserve0 edge < edge_reserve1 edge
                        then edge_reserve0 edge else edge_reserve1 edge) < 10 ^ 18
                    then c * (8 / 10) else c) c1 cycle
         in Inr (max 0 (min 1 c2))))"

text \<open>\<^verbatim>\<open>ArbitrageDetector.buildOpportunity\<close>; \<open>None\<close> is \<^verbatim>\<open>null\<close>.\<close>

definition buildOpportunity ::
  "int \<Rightarrow> int \<Rightarrow> Edge list \<Rightarrow> int \<Rightarrow> js_error + ArbitrageOpportunity option" where
  "buildOpportunity cid now cycle input =
     (case cycle of
        [] \<Rightarrow> Inr None
      | firstStep # _ \<Rightarrow>
          (case quoteLoop cycle input [] of
             Inl err \<Rightarrow> Inl err
           | Inr (swapSteps, currentAmount) \<Rightarrow>
               (case calculateConfidence cycle (currentAmount - input) input of
                  Inl err \<Rightarrow> Inl err
                | Inr conf \<Rightarrow>
                    Inr (Some \<lparr>chain = cid, path = swapSteps, inputToken = edge_from firstStep,
                               inputAmount = input, expectedOutput = currentAmount,
                               expectedProfit = currentAmount - input, profitUsd = 0,
                               gasEstimate = 150000 + int (length cycle) * 80000,
                               gasCostUsd = 0, netProfitUsd = 0, confidence = conf,
                               timestamp = now, expiresAt = now + 2000\<rparr>))))"

subsection \<open>The detector run\<close>

text \<open>The loop over \<^verbatim>\<open>negativeCycleVertices\<close>.\<close>

fun negativeLoop ::
  "int \<Rightarrow> int \<Rightarrow> (Address \<times> Edge option) list \<Rightarrow> Address \<Rightarrow> int \<Rightarrow> Address list
     \<Rightarrow> ArbitrageOpportunity list \<Rightarrow> js_error + ArbitrageOpportunity list" where
  "negativeLoop cid now predecessor sourceToken input [] opportunities = Inr opportunities"
| "negativeLoop cid now predecessor sourceToken input (startVertex # rest) opportunities =
     (case extractCycle startVertex predecessor of
        [] \<Rightarrow> negativeLoop cid now predecessor sourceToken input rest opportunities
      | e # es \<Rightarrow>
          if edge_from e = sourceToken
          then (case buildOpportunity cid now (e # es) input of
                  Inl err \<Rightarrow> Inl err
                | Inr None \<Rightarrow> negativeLoop cid now predecessor sourceToken input rest opportunities
                | Inr (Some opportunity) \<Rightarrow>
                    if expectedProfit opportunity > 0
                    then negativeLoop cid now predecessor sourceToken input rest
                           (opportunities @ [opportunity])
                    else negativeLoop cid now predecessor sourceToken input rest opportunities)
          else negativeLoop cid now predecessor sourceToken input rest opportunities)"

text \<open>The duplicate test: same path length and the same pool at every step.\<close>

definition isDuplicate :: "ArbitrageOpportunity list \<Rightarrow> ArbitrageOpportunity \<Rightarrow> bool" where
  "isDuplicate opportunities opportunity =
     list_ex (\<lambda>opp. length (path opp) = length (path opportunity) \<and>
                list_all (\<lambda>(step, other). pool step = pool other)
                  (zip (path opp) (path opportunity)))
       opportunities"

text \<open>The loop over \<^verbatim>\<open>directCycles\<close>.\<close>

fun directLoop ::
  "int \<Rightarrow> int \<Rightarrow> int \<Rightarrow> Edge list list \<Rightarrow> ArbitrageOpportunity list
     \<Rightarrow> js_error + ArbitrageOpportunity list" where
  "directLoop cid now input [] opportunities = Inr opportunities"
| "directLoop cid now input (cycle # rest) opportunities =
     (case buildOpportunity cid now cycle input of
        Inl err \<Rightarrow> Inl err
      | Inr None \<Rightarrow> directLoop cid now input rest opportunities
      | Inr (Some opportunity) \<Rightarrow>
          if expectedProfit opportunity > 0 \<and> \<not> isDuplicate opportunities opportunity
          then directLoop cid now input rest (opportunities @ [opportunity])
          else directLoop cid now input rest opportunities)"

text \<open>
  \<^verbatim>\<open>ArbitrageDetector.findArbitrageOpportunities\<close>. \<^verbatim>\<open>Array.prototype.sort\<close> is stable
  and the comparator has the sign of \<^verbatim>\<open>b.expectedProfit - a.expectedProfit\<close>: a stable
  sort by descending profit.
\<close>

definition findArbitrageOpportunities ::
  "ArbitrageDetector \<Rightarrow> int \<Rightarrow> Address \<Rightarrow> int \<Rightarrow> js_error + ArbitrageOpportunity list" where
  "findArbitrageOpportunities d now sourceToken input =
     (let g = graph d; n = length (vertices g)
      in if n = 0 then Inr []
         else
           (case relax_loop (n - 1) g
                   (AList.update sourceToken (Num 0) (map (\<lambda>v. (v, PosInf)) (vertices g)),
                    map (\<lambda>v. (v, None)) (vertices g)) of
              (distance, predecessor) \<Rightarrow>
                (case negativeLoop (chainId d) now predecessor sourceToken input
                        (negativeCycleVertices g distance) [] of
                   Inl err \<Rightarrow> Inl err
                 | Inr opportunities \<Rightarrow>
                     (case directLoop (chainId d) now input
                             (findDirectCycles g sourceToken 3) opportunities of
                        Inl err \<Rightarrow> Inl err
                      | Inr found \<Rightarrow> Inr (sort_key (\<lambda>opp. - expectedProfit opp) found)))))"

section \<open>The trade executor\<close>

record BotConfig =
  minProfitUsd :: real
  maxGasPriceGwei :: int
  maxSlippageBps :: int
  simulateBeforeExecute :: bool
  dryRun :: bool
  cooldownMs :: int
  enabledChains :: "int list"
  flashbotsEnabled :: bool

text \<open>The argument of the contract's \<^verbatim>\<open>executeArbitrage\<close>, as \<^verbatim>\<open>buildArbitrageParams\<close> builds it.\<close>

record SwapArg =
  arg_router :: Address
  arg_tokenIn :: Address
  arg_tokenOut :: Address
  arg_amountIn :: int
  arg_data :: swap_data
  arg_dexType :: DexType

record ArbitrageParams =
  flashToken :: Address
  flashAmount :: int
  swaps :: "SwapArg list"
  minProfit :: int

text \<open>\<^verbatim>\<open>TradeExecutor.buildArbitrageParams\<close>.\<close>

definition buildArbitrageParams :: "BotConfig \<Rightarrow> ArbitrageOpportunity \<Rightarrow> ArbitrageParams" where
  "buildArbitrageParams cfg opportunity =
     \<lparr>flashToken = inputToken opportunity,
      flashAmount = inputAmount opportunity,
      swaps = map (\<lambda>step. \<lparr>arg_router = router step, arg_tokenIn = tokenIn step,
                              arg_tokenOut = tokenOut step, arg_amountIn = amountIn step,
                              arg_data = data step, arg_dexType = dexType step\<rparr>)
                (path opportunity),
      minProfit = bigint_div (expectedProfit opportunity * (100 - maxSlippageBps cfg)) 100\<rparr>"

text \<open>
  The calldata of a transaction is the encoding of \<^verbatim>\<open>executeArbitrage(params)\<close>; the model
  keeps \<open>params\<close>.
\<close>

record Transaction =
  tx_to :: Address
  tx_data :: ArbitrageParams
  tx_gas :: int
  maxFeePerGas :: int
  maxPriorityFeePerGas :: int
  tx_nonce :: int

record Receipt =
  status_success :: bool
  receipt_gasUsed :: int
  receipt_blockNumber :: int

text \<open>
  The clients of a chain. \<open>'w\<close> is the state of the chain (every nonce and balance): a
  read answers from it or throws (\<open>Inl\<close> the message), and only \<^verbatim>\<open>sendTransaction\<close>
  changes it.
\<close>

record 'w Client =
  simulateContract :: "'w \<Rightarrow> ArbitrageParams \<Rightarrow> string option"
  estimateGas :: "'w \<Rightarrow> Address \<Rightarrow> ArbitrageParams \<Rightarrow> string + int"
  getGasPrice :: "'w \<Rightarrow> string + int"
  getTransactionCount :: "'w \<Rightarrow> string + int"
  getBlockNumber :: "'w \<Rightarrow> string + int"
  sendTransaction :: "'w \<Rightarrow> Transaction \<Rightarrow> string + string \<times> 'w"
  waitForTransactionReceipt :: "'w \<Rightarrow> string \<Rightarrow> string + Receipt"

text \<open>
  An entry of \<^verbatim>\<open>CHAIN_CONFIGS\<close> (\<^verbatim>\<open>config/chains.ts\<close>), with the two fields the executor and
  the monitor read: \<^verbatim>\<open>contracts.arbitrage\<close> and \<^verbatim>\<open>nativeToken.address\<close>. The table has the
  five chains of the source; the arbitrage address is the zero address until a contract is
  deployed.
\<close>

record ChainConfig =
  arbitrage :: Address
  nativeToken :: Address

definition CHAIN_CONFIGS :: "int \<rightharpoonup> ChainConfig" where
  "CHAIN_CONFIGS =
     [1 \<mapsto> \<lparr>arbitrage = ''0x0000000000000000000000000000000000000000'',
            nativeToken = ''0xC02aaA39b223FE8D0A0e5C4F27eAD9083C756Cc2''\<rparr>,
      42161 \<mapsto> \<lparr>arbitrage = ''0x0000000000000000000000000000000000000000'',
                nativeToken = ''0x82aF49447D8a07e3bd95BD0d56f35241523fBab1''\<rparr>,
      8453 \<mapsto> \<lparr>arbitrage = ''0x0000000000000000000000000000000000000000'',
               nativeToken = ''0x4200000000000000000000000000000000000006''\<rparr>,
      10 \<mapsto> \<lparr>arbitrage = ''0x0000000000000000000000000000000000000000'',
             nativeToken = ''0x4200000000000000000000000000000000000006''\<rparr>,
      421614 \<mapsto> \<lparr>arbitrage = ''0x0000000000000000000000000000000000000000'',
                 nativeToken = ''0x980B62Da83eFf3D4576C647993b0c1D7faf17c73''\<rparr>]"

record 'w TradeExecutor =
  config :: BotConfig
  walletClients :: "int \<rightharpoonup> 'w Client"
  publicClients :: "int \<rightharpoonup> 'w Client"

text \<open>
  \<^verbatim>\<open>new TradeExecutor(config)\<close>: a public and a wallet client for every enabled chain that
  has an entry in \<^verbatim>\<open>CHAIN_CONFIGS\<close>, and for no other chain.
\<close>

definition newTradeExecutor ::
  "BotConfig \<Rightarrow> (int \<Rightarrow> 'w Client) \<Rightarrow> (int \<Rightarrow> 'w Client) \<Rightarrow> 'w TradeExecutor" where
  "newTradeExecutor cfg publicClient walletClient =
     \<lparr>config = cfg,
      walletClients = (\<lambda>c. if c \<in> set (enabledChains cfg) \<and> CHAIN_CONFIGS c \<noteq> None
                            then Some (walletClient c) else None),
      publicClients = (\<lambda>c. if c \<in> set (enabledChains cfg) \<and> CHAIN_CONFIGS c \<noteq> None
                            then Some (publicClient c) else None)\<rparr>"

datatype exec_error =
  NoClientForChain | NoConfigForChain | NoMainnetConfig | GasPriceTooHigh int | Thrown string

record ExecutionResult =
  success :: bool
  txHash :: "string option"
  profit :: "int option"
  gasUsed :: "int option"
  error :: "exec_error option"
  blockNumber :: "int option"
  result_timestamp :: int

definition failed :: "exec_error \<Rightarrow> int \<Rightarrow> ExecutionResult" where
  "failed e now = \<lparr>success = False, txHash = None, profit = None, gasUsed = None,
                    error = Some e, blockNumber = None, result_timestamp = now\<rparr>"

text \<open>\<^verbatim>\<open>TradeExecutor.simulate\<close>: \<open>Inr\<close> the gas estimate, \<open>Inl\<close> the error of a failed simulation.\<close>

definition simulate ::
  "'w TradeExecutor \<Rightarrow> ArbitrageOpportunity \<Rightarrow> 'w \<Rightarrow> exec_error + int" where
  "simulate ex opportunity w =
     (case publicClients ex (chain opportunity) of
        None \<Rightarrow> Inl NoClientForChain
      | Some publicClient \<Rightarrow>
          (case CHAIN_CONFIGS (chain opportunity) of
             None \<Rightarrow> Inl NoConfigForChain
           | Some chainConfig \<Rightarrow>
               (case simulateContract publicClient w
                       (buildArbitrageParams (config ex) opportunity) of
                  Some msg \<Rightarrow> Inl (Thrown msg)
                | None \<Rightarrow>
                    (case estimateGas publicClient w (arbitrage chainConfig)
                            (buildArbitrageParams (config ex) opportunity) of
                       Inl msg \<Rightarrow> Inl (Thrown msg)
                     | Inr estimate \<Rightarrow> Inr estimate))))"

text \<open>\<^verbatim>\<open>TradeExecutor.getPriorityFee\<close>.\<close>

definition getPriorityFee :: "int \<Rightarrow> int" where
  "getPriorityFee c =
     (if c = 1 then 2 * 10 ^ 9
      else if c = 42161 \<or> c = 8453 \<or> c = 10 then 10 ^ 8
      else 10 ^ 9)"

text \<open>\<^verbatim>\<open>TradeExecutor.executeStandard\<close>: the hash and the chain after the submission.\<close>

definition executeStandard ::
  "'w TradeExecutor \<Rightarrow> ArbitrageOpportunity \<Rightarrow> 'w Client \<Rightarrow> 'w Client \<Rightarrow> ChainConfig \<Rightarrow> 'w
     \<Rightarrow> string + string \<times> 'w" where
  "executeStandard ex opportunity walletClient publicClient chainConfig w =
     (case getTransactionCount publicClient w of
        Inl msg \<Rightarrow> Inl msg
      | Inr nonce \<Rightarrow>
          (case estimateGas publicClient w (arbitrage chainConfig)
                  (buildArbitrageParams (config ex) opportunity) of
             Inl msg \<Rightarrow> Inl msg
           | Inr estimate \<Rightarrow>
               (case getGasPrice publicClient w of
                  Inl msg \<Rightarrow> Inl msg
                | Inr gasPrice \<Rightarrow>
                    sendTransaction walletClient w
                      \<lparr>tx_to = arbitrage chainConfig,
                       tx_data = buildArbitrageParams (config ex) opportunity,
                       tx_gas = bigint_div (estimate * 120) 100,
                       maxFeePerGas = gasPrice + getPriorityFee (chain opportunity),
                       maxPriorityFeePerGas = getPriorityFee (chain opportunity),
                       tx_nonce = nonce\<rparr>)))"

text \<open>\<^verbatim>\<open>TradeExecutor.executeViaFlashbots\<close>.\<close>

definition executeViaFlashbots ::
  "'w TradeExecutor \<Rightarrow> ArbitrageOpportunity \<Rightarrow> 'w Client \<Rightarrow> 'w Client \<Rightarrow> 'w
     \<Rightarrow> exec_error + string \<times> 'w" where
  "executeViaFlashbots ex opportunity walletClient publicClient w =
     (case CHAIN_CONFIGS 1 of
        None \<Rightarrow> Inl NoMainnetConfig
      | Some chainConfig \<Rightarrow>
          (case getBlockNumber publicClient w of
             Inl msg \<Rightarrow> Inl (Thrown msg)
           | Inr blockNo \<Rightarrow>
               (case estimateGas publicClient w (arbitrage chainConfig)
                       (buildArbitrageParams (config ex) opportunity) of
                  Inl msg \<Rightarrow> Inl (Thrown msg)
                | Inr estimate \<Rightarrow>
                    (case getGasPrice publicClient w of
                       Inl msg \<Rightarrow> Inl (Thrown msg)
                     | Inr gasPrice \<Rightarrow>
                         (case getTransactionCount publicClient w of
                            Inl msg \<Rightarrow> Inl (Thrown msg)
                          | Inr nonce \<Rightarrow>
                              (case sendTransaction walletClient w
                                      \<lparr>tx_to = arbitrage chainConfig,
                                       tx_data = buildArbitrageParams (config ex) opportunity,
                                       tx_gas = bigint_div (estimate * 120) 100,
                                       maxFeePerGas = gasPrice * 2,
                                       maxPriorityFeePerGas = bigint_div gasPrice 2,
                                       tx_nonce = nonce\<rparr> of
                                 Inl msg \<Rightarrow> Inl (Thrown msg)
                               | Inr sent \<Rightarrow> Inr sent))))))"

text \<open>
  The part of \<^verbatim>\<open>TradeExecutor.execute\<close> inside \<^verbatim>\<open>try\<close>: simulation, gas gate, submission
  and confirmation. A thrown error is caught by \<^verbatim>\<open>execute\<close> and becomes a failed result;
  the chain keeps a transaction that was sent before the throw.
\<close>

definition executeLive ::
  "'w TradeExecutor \<Rightarrow> int \<Rightarrow> ArbitrageOpportunity
     \<Rightarrow> 'w Client \<Rightarrow> 'w Client \<Rightarrow> ChainConfig \<Rightarrow> 'w \<Rightarrow> ExecutionResult \<times> 'w" where
  "executeLive ex now opportunity walletClient publicClient chainConfig w =
     (case (if simulateBeforeExecute (config ex)
            then simulate ex opportunity w else Inr 0) of
        Inl e \<Rightarrow> (failed e now, w)
      | Inr _ \<Rightarrow>
          (case getGasPrice publicClient w of
             Inl msg \<Rightarrow> (failed (Thrown msg) now, w)
           | Inr gasPrice \<Rightarrow>
               if gasPrice > maxGasPriceGwei (config ex) * 10 ^ 9
               then (failed (GasPriceTooHigh gasPrice) now, w)
               else
                 (case (if chain opportunity = 1 \<and> flashbotsEnabled (config ex)
                        then executeViaFlashbots ex opportunity walletClient publicClient w
                        else (case executeStandard ex opportunity walletClient publicClient
                                     chainConfig w of
                                Inl msg \<Rightarrow> Inl (Thrown msg)
                              | Inr sent \<Rightarrow> Inr sent)) of
                    Inl e \<Rightarrow> (failed e now, w)
                  | Inr (hash, w') \<Rightarrow>
                      (case waitForTransactionReceipt publicClient w' hash of
                         Inl msg \<Rightarrow> (failed (Thrown msg) now, w')
                       | Inr receipt \<Rightarrow>
                           (\<lparr>success = status_success receipt, txHash = Some hash,
                             profit = Some (if status_success receipt
                                            then expectedProfit opportunity else 0),
                             gasUsed = Some (receipt_gasUsed receipt), error = None,
                             blockNumber = Some (receipt_blockNumber receipt),
                             result_timestamp = now\<rparr>, w')))))"

text \<open>\<^verbatim>\<open>TradeExecutor.execute\<close>: the result and the chain state after the call.\<close>

definition execute ::
  "'w TradeExecutor \<Rightarrow> int \<Rightarrow> ArbitrageOpportunity \<Rightarrow> 'w \<Rightarrow> ExecutionResult \<times> 'w" where
  "execute ex now opportunity w =
     (case walletClients ex (chain opportunity) of
        None \<Rightarrow> (failed NoClientForChain now, w)
      | Some walletClient \<Rightarrow>
          (case publicClients ex (chain opportunity) of
             None \<Rightarrow> (failed NoClientForChain now, w)
           | Some publicClient \<Rightarrow>
               (case CHAIN_CONFIGS (chain opportunity) of
                  None \<Rightarrow> (failed NoConfigForChain now, w)
                | Some chainConfig \<Rightarrow>
                    if dryRun (config ex)
                    then (\<lparr>success = True, txHash = Some (''0x'' @ replicate 64 CHR ''0''),
                           profit = Some (expectedProfit opportunity),
                           gasUsed = Some (gasEstimate opportunity), error = None,
                           blockNumber = None, result_timestamp = now\<rparr>, w)
                    else executeLive ex now opportunity walletClient publicClient
                           chainConfig w)))"

section \<open>The price monitor\<close>

record PoolSubscription =
  sub_pool :: Address
  sub_dex :: string
  sub_dexType :: DexType
  sub_router :: Address
  sub_token0 :: Address
  sub_token1 :: Address
  sub_fee :: int

record PoolReserves =
  pr_pool :: Address
  pr_dex :: string
  pr_token0 :: Address
  pr_token1 :: Address
  pr_reserve0 :: int
  pr_reserve1 :: int
  pr_fee :: int
  pr_timestamp :: int

text \<open>
  The state of a \<^verbatim>\<open>PriceMonitor\<close>: \<^verbatim>\<open>reserves\<close> is keyed by the string
  \<^verbatim>\<open>chainId-pool\<close>, here the pair. Two fields record what the monitor does beyond its
  own state: how many times \<^verbatim>\<open>checkArbitrage\<close> ran the detector, and the lists it handed
  to the \<^verbatim>\<open>onOpportunity\<close> callback, in order.
\<close>

record PriceMonitor =
  reserves :: "int \<times> Address \<rightharpoonup> PoolReserves"
  detectors :: "int \<rightharpoonup> ArbitrageDetector"
  detectorRuns :: nat
  delivered :: "ArbitrageOpportunity list list"

text \<open>
  \<^verbatim>\<open>PriceMonitor.updateReserves\<close>. A RangeError thrown by \<^verbatim>\<open>calculateRate\<close> leaves the
  writes made before it in place, so the state is returned beside the error.
\<close>

definition updateReserves ::
  "int \<Rightarrow> int \<Rightarrow> PoolSubscription \<Rightarrow> int \<Rightarrow> int \<Rightarrow> PriceMonitor
     \<Rightarrow> PriceMonitor \<times> js_error option" where
  "updateReserves now cid sub reserve0 reserve1 m =
     (let m1 = m\<lparr>reserves := (reserves m)((cid, sub_pool sub) \<mapsto>
                  \<lparr>pr_pool = sub_pool sub, pr_dex = sub_dex sub, pr_token0 = sub_token0 sub,
                   pr_token1 = sub_token1 sub, pr_reserve0 = reserve0, pr_reserve1 = reserve1,
                   pr_fee = sub_fee sub, pr_timestamp = now\<rparr>)\<rparr>
      in case detectors m1 cid of
           None \<Rightarrow> (m1, None)
         | Some detector \<Rightarrow>
             (case calculateRate reserve0 reserve1 (10 ^ 18) (sub_fee sub) of
                Inl err \<Rightarrow> (m1, Some err)
              | Inr r01 \<Rightarrow>
                  (let g1 = addEdge
                         \<lparr>edge_from = sub_token0 sub, edge_to = sub_token1 sub,
                          edge_pool = sub_pool sub, edge_dex = sub_dex sub,
                          edge_dexType = sub_dexType sub, edge_router = sub_router sub,
                          weight = calculateWeight (rate r01),
                          edge_reserve0 = reserve0, edge_reserve1 = reserve1,
                          edge_fee = sub_fee sub\<rparr> (graph detector)
                   in case calculateRate reserve1 reserve0 (10 ^ 18) (sub_fee sub) of
                        Inl err \<Rightarrow>
                          (m1\<lparr>detectors := (detectors m1)(cid \<mapsto> detector\<lparr>graph := g1\<rparr>)\<rparr>,
                           Some err)
                      | Inr r10 \<Rightarrow>
                          (m1\<lparr>detectors := (detectors m1)(cid \<mapsto> detector\<lparr>graph :=
                               addEdge
                                 \<lparr>edge_from = sub_token1 sub, edge_to = sub_token0 sub,
                                  edge_pool = sub_pool sub, edge_dex = sub_dex sub,
                                  edge_dexType = sub_dexType sub, edge_router = sub_router sub,
                                  weight = calculateWeight (rate r10),
                                  edge_reserve0 = reserve1, edge_reserve1 = reserve0,
                                  edge_fee = sub_fee sub\<rparr> g1\<rparr>)\<rparr>,
                           None))))"

text \<open>
  Names for what \<^verbatim>\<open>updateReserves\<close> computes: the quote of the reference input
  \<open>10^18\<close>, and the edge it derives for a direction (\<open>forward\<close> is token0 to token1), whose
  stored reserves are the input side first.
\<close>

definition refQuote :: "int \<Rightarrow> int \<Rightarrow> int \<Rightarrow> int" where
  "refQuote rIn rOut fee =
     (10 ^ 18 * (10000 - fee) * rOut) div (rIn * 10000 + 10 ^ 18 * (10000 - fee))"

definition derivedEdge :: "PoolSubscription \<Rightarrow> bool \<Rightarrow> int \<Rightarrow> int \<Rightarrow> Edge" where
  "derivedEdge sub forward rIn rOut =
     \<lparr>edge_from = (if forward then sub_token0 sub else sub_token1 sub),
      edge_to = (if forward then sub_token1 sub else sub_token0 sub),
      edge_pool = sub_pool sub, edge_dex = sub_dex sub,
      edge_dexType = sub_dexType sub, edge_router = sub_router sub,
      weight = calculateWeight (number_div (refQuote rIn rOut (sub_fee sub)) (10 ^ 18)),
      edge_reserve0 = rIn, edge_reserve1 = rOut, edge_fee = sub_fee sub\<rparr>"

text \<open>
  \<^verbatim>\<open>PriceMonitor.checkArbitrage\<close>: one detector run from the chain's native token with an
  input of \<open>10^18\<close>; a non-empty result goes to the callback.
\<close>

definition checkArbitrage ::
  "int \<Rightarrow> int \<Rightarrow> PriceMonitor \<Rightarrow> PriceMonitor \<times> js_error option" where
  "checkArbitrage now cid m =
     (case detectors m cid of
        None \<Rightarrow> (m, None)
      | Some detector \<Rightarrow>
          (case CHAIN_CONFIGS cid of
             None \<Rightarrow> (m, None)
           | Some cfg \<Rightarrow>
               (case findArbitrageOpportunities detector now (nativeToken cfg) (10 ^ 18) of
                  Inl err \<Rightarrow> (m\<lparr>detectorRuns := Suc (detectorRuns m)\<rparr>, Some err)
                | Inr opportunities \<Rightarrow>
                    (m\<lparr>detectorRuns := Suc (detectorRuns m),
                       delivered := (if opportunities \<noteq> []
                                     then delivered m @ [opportunities] else delivered m)\<rparr>,
                     None))))"

text \<open>
  A decoded \<^verbatim>\<open>Sync\<close> log as the client delivers it: its position in the chain and its
  arguments, each of which may be undefined.
\<close>

record SyncLog =
  log_blockNumber :: int
  logIndex :: int
  arg_reserve0 :: "int option"
  arg_reserve1 :: "int option"

text \<open>
  The body of the \<^verbatim>\<open>onLogs\<close> loop that \<^verbatim>\<open>startMonitoring\<close> installs for a V2 pool, and
  the loop itself. A thrown error ends the callback.
\<close>

definition onSyncLog ::
  "int \<Rightarrow> int \<Rightarrow> PoolSubscription \<Rightarrow> SyncLog \<Rightarrow> PriceMonitor
     \<Rightarrow> PriceMonitor \<times> js_error option" where
  "onSyncLog now cid sub lg m =
     (case (arg_reserve0 lg, arg_reserve1 lg) of
        (Some reserve0, Some reserve1) \<Rightarrow>
          (case updateReserves now cid sub reserve0 reserve1 m of
             (m1, Some err) \<Rightarrow> (m1, Some err)
           | (m1, None) \<Rightarrow> checkArbitrage now cid m1)
      | _ \<Rightarrow> (m, None))"

fun onLogs ::
  "int \<Rightarrow> int \<Rightarrow> PoolSubscription \<Rightarrow> SyncLog list \<Rightarrow> PriceMonitor
     \<Rightarrow> PriceMonitor \<times> js_error option" where
  "onLogs now cid sub [] m = (m, None)"
| "onLogs now cid sub (lg # lgs) m =
     (case onSyncLog now cid sub lg m of
        (m1, Some err) \<Rightarrow> (m1, Some err)
      | (m1, None) \<Rightarrow> onLogs now cid sub lgs m1)"

section \<open>The opportunity queue\<close>

text \<open>
  The loop of the handler that \<^verbatim>\<open>main\<close> passes to \<^verbatim>\<open>monitor.onOpportunity\<close>: each
  opportunity is valued in USD, in doubles (\<open>3000\<close> and \<open>1e18\<close> are doubles exactly), and
  pushed onto \<^verbatim>\<open>opportunityQueue\<close> when its net profit reaches \<^verbatim>\<open>config.minProfitUsd\<close>.
  The handler then starts \<^verbatim>\<open>processQueue\<close>.
\<close>

definition valueUsd :: "ArbitrageOpportunity \<Rightarrow> ArbitrageOpportunity" where
  "valueUsd opp =
     (let ethPriceUsd = (3000, 0);
          profitEth = double_div (double_of_bigint (expectedProfit opp)) (10 ^ 18, 0);
          gasCostEth = double_div (double_of_bigint (gasEstimate opp * 30 * 10 ^ 9))
                         (10 ^ 18, 0);
          usdProfit = double_mul profitEth ethPriceUsd;
          usdGas = double_mul gasCostEth ethPriceUsd
      in opp\<lparr>profitUsd := double_value usdProfit,
              gasCostUsd := double_value usdGas,
              netProfitUsd := double_value (double_sub usdProfit usdGas)\<rparr>)"

fun enqueueAll ::
  "BotConfig \<Rightarrow> ArbitrageOpportunity list \<Rightarrow> ArbitrageOpportunity list
     \<Rightarrow> ArbitrageOpportunity list" where
  "enqueueAll cfg [] opportunityQueue = opportunityQueue"
| "enqueueAll cfg (opp # opportunities) opportunityQueue =
     (if netProfitUsd (valueUsd opp) \<ge> minProfitUsd cfg
      then enqueueAll cfg opportunities (opportunityQueue @ [valueUsd opp])
      else enqueueAll cfg opportunities opportunityQueue)"

section \<open>The arbitrage contract\<close>




record SolSwapStep =
  sw_router :: Address
  sw_tokenIn :: Address
  sw_tokenOut :: Address
  sw_amountIn :: nat
  sw_data :: "nat list"
  sw_dexType :: nat














section \<open>Concrete inputs\<close>

text \<open>The configuration \<^verbatim>\<open>loadConfig\<close> returns when no environment variable overrides it.\<close>

definition defaultConfig :: BotConfig where
  "defaultConfig =
     \<lparr>minProfitUsd = 10, maxGasPriceGwei = 100, maxSlippageBps = 50,
      simulateBeforeExecute = True, dryRun = False, cooldownMs = 1000,
      enabledChains = [42161, 8453], flashbotsEnabled = False\<rparr>"

text \<open>A two-step opportunity on chain 42161 with input \<open>10^18\<close> and expected profit \<open>p\<close>.\<close>

definition exampleOpportunity :: "int \<Rightarrow> ArbitrageOpportunity" where
  "exampleOpportunity p =
     \<lparr>chain = 42161,
      path = [\<lparr>router = ''0xR1'', tokenIn = ''0xA'', tokenOut = ''0xB'', amountIn = 10 ^ 18,
               expectedAmountOut = 2 * 10 ^ 18, pool = ''0xP1'', dexType = UniswapV2,
               data = EmptyData\<rparr>,
              \<lparr>router = ''0xR2'', tokenIn = ''0xB'', tokenOut = ''0xA'', amountIn = 2 * 10 ^ 18,
               expectedAmountOut = 10 ^ 18 + p, pool = ''0xP2'', dexType = UniswapV2,
               data = EmptyData\<rparr>],
      inputToken = ''0xA'', inputAmount = 10 ^ 18, expectedOutput = 10 ^ 18 + p,
      expectedProfit = p, profitUsd = 0, gasEstimate = 310000, gasCostUsd = 0,
      netProfitUsd = 0, confidence = 1, timestamp = 0, expiresAt = 2000\<rparr>"

text \<open>
  A node that answers every request; its chain state is the account's nonce, which a
  submitted transaction advances.
\<close>

definition idleClient :: "nat Client" where
  "idleClient =
     \<lparr>simulateContract = (\<lambda>w p. None), estimateGas = (\<lambda>w a p. Inr 300000),
      getGasPrice = (\<lambda>w. Inr (10 ^ 9)), getTransactionCount = (\<lambda>w. Inr (int w)),
      getBlockNumber = (\<lambda>w. Inr 1), sendTransaction = (\<lambda>w t. Inr (''0xabc'', Suc w)),
      waitForTransactionReceipt =
        (\<lambda>w h. Inr \<lparr>status_success = True, receipt_gasUsed = 250000,
                       receipt_blockNumber = 2\<rparr>)\<rparr>"

text \<open>A V2 edge with a fee of 30 basis points.\<close>

definition v2Edge :: "Address \<Rightarrow> Address \<Rightarrow> Address \<Rightarrow> number \<Rightarrow> int \<Rightarrow> int \<Rightarrow> Edge" where
  "v2Edge a b p w r0 r1 =
     \<lparr>edge_from = a, edge_to = b, edge_pool = p, edge_dex = ''v2'', edge_dexType = UniswapV2,
      edge_router = ''0xR'', weight = w, edge_reserve0 = r0, edge_reserve1 = r1, edge_fee = 30\<rparr>"

text \<open>Two pools \<open>P\<close> and \<open>Q\<close> between the tokens \<open>A\<close> and \<open>B\<close>, each with both directions.\<close>

definition twoPools :: Graph where
  "twoPools =
     addEdge (v2Edge ''0xB'' ''0xA'' ''0xQ'' (Num 0) 1000 1000)
       (addEdge (v2Edge ''0xA'' ''0xB'' ''0xQ'' (Num 0) 1000 1000)
         (addEdge (v2Edge ''0xB'' ''0xA'' ''0xP'' (Num 0) 1000 1000)
           (addEdge (v2Edge ''0xA'' ''0xB'' ''0xP'' (Num 0) 1000 1000)
             \<lparr>vertices = [], edges = []\<rparr>)))"

text \<open>
  A detector with the default \<^verbatim>\<open>minProfitBps = 10\<close> and the triangle \<open>A \<rightarrow> B \<rightarrow> C \<rightarrow> A\<close>,
  whose weights are close to \<open>-ln\<close> of the rates of its pools.
\<close>

definition triangle :: ArbitrageDetector where
  "triangle =
     (newDetector 42161 10)\<lparr>graph :=
        addEdge (v2Edge ''0xC'' ''0xA'' ''0xP3'' (Num (30 / 10000)) (10 ^ 24) (10 ^ 24))
          (addEdge (v2Edge ''0xB'' ''0xC'' ''0xP2'' (Num (30 / 10000)) (10 ^ 24) (10 ^ 24))
            (addEdge (v2Edge ''0xA'' ''0xB'' ''0xP1'' (Num (- 64 / 10000)) (10 ^ 24)
                       (10095 * 10 ^ 20))
               \<lparr>vertices = [], edges = []\<rparr>))\<rparr>"



text \<open>A monitor with an empty detector for chain 42161, a V2 pool, and a \<^verbatim>\<open>Sync\<close> log.\<close>

definition exampleMonitor :: PriceMonitor where
  "exampleMonitor =
     \<lparr>reserves = Map.empty, detectors = [42161 \<mapsto> newDetector 42161 10],
      detectorRuns = 0, delivered = []\<rparr>"

definition exampleSub :: PoolSubscription where
  "exampleSub =
     \<lparr>sub_pool = ''0xP'', sub_dex = ''v2'', sub_dexType = UniswapV2, sub_router = ''0xR'',
      sub_token0 = ''0xA'', sub_token1 = ''0xB'', sub_fee = 30\<rparr>"



section \<open>Invariants\<close>


text \<open>
  What the detector guarantees of an opportunity it returns for the input amount \<open>input\<close>:
  its input is \<open>input\<close>, its output is larger, and path and output are the quote of some
  non-empty cycle, edge after edge.
\<close>

definition quoted :: "int \<Rightarrow> ArbitrageOpportunity \<Rightarrow> bool" where
  "quoted input opp =
     (inputAmount opp = input \<and> inputAmount opp < expectedOutput opp \<and>
      (\<exists>cycle. cycle \<noteq> [] \<and> quoteLoop cycle input [] = Inr (path opp, expectedOutput opp)))"


section \<open>Verified properties\<close>

subsection \<open>The constant-product quote\<close>

lemma bigint_div_nonneg:
  "0 \<le> a \<Longrightarrow> 0 < b \<Longrightarrow> bigint_div a b = a div b"
  by (cases "a = 0") (simp_all add: bigint_div_def)

text \<open>
  Claim C4. For a positive reference input \<open>dx\<close>, positive reserves and a fee in basis
  points (between 0 and 10000), \<^verbatim>\<open>calculateRate\<close> returns, without throwing,
  \<open>amountOut = (dx \<cdot> (10000 - fee) \<cdot> reserveOut) div (reserveIn \<cdot> 10000 + dx \<cdot> (10000 - fee))\<close>
  with integer division.
\<close>

theorem calculateRate_amountOut:
  assumes "0 < dx" "0 < rIn" "0 < rOut" "0 \<le> feeBps" "feeBps \<le> 10000"
  shows "\<exists>r. calculateRate rIn rOut dx feeBps = Inr r \<and>
           amountOut r = (dx * (10000 - feeBps) * rOut)
                           div (rIn * 10000 + dx * (10000 - feeBps))"
proof -
  have f: "0 \<le> dx * (10000 - feeBps)" using assms by simp
  then have den: "0 < rIn * 10000 + dx * (10000 - feeBps)" using assms by linarith
  have num: "0 \<le> dx * (10000 - feeBps) * rOut" using f assms by simp
  show ?thesis
    using den num by (simp add: calculateRate_def Let_def bigint_div_nonneg)
qed

theorem calculateRate_amountOut_witness:
  "0 < (1000::int) \<and> 0 < (50000::int) \<and> 0 < (70000::int) \<and> (0::int) \<le> 30 \<and>
   (30::int) \<le> 10000 \<and>
   (\<exists>r. calculateRate 50000 70000 1000 30 = Inr r \<and> amountOut r = 1368)"
  using calculateRate_amountOut [of 1000 50000 70000 30] by simp

text \<open>
  Claim C10. For every call of \<^verbatim>\<open>calculateRate\<close> with a positive input amount, a fee
  below 10000 basis points and reserves that are amounts (not negative, zero allowed), the
  divisor \<open>reserveIn \<cdot> 10000 + dx \<cdot> (10000 - feeBps)\<close> is not zero, so the call returns, and
  the returned \<open>amountOut\<close> is at most \<open>reserveOut\<close>.
\<close>

theorem calculateRate_safe:
  assumes "0 < dx" "feeBps < 10000" "0 \<le> rIn" "0 \<le> rOut"
  shows "rIn * 10000 + dx * (10000 - feeBps) \<noteq> 0 \<and>
         (\<exists>r. calculateRate rIn rOut dx feeBps = Inr r \<and> amountOut r \<le> rOut)"
proof -
  let ?f = "dx * (10000 - feeBps)"
  let ?den = "rIn * 10000 + ?f"
  have f: "0 < ?f" using assms by simp
  then have den: "0 < ?den" using assms by linarith
  have num: "0 \<le> ?f * rOut" using f assms by simp
  have "?f * rOut \<le> ?den * rOut"
    using assms f by (intro mult_right_mono) auto
  then have "(?f * rOut) div ?den \<le> (?den * rOut) div ?den"
    using den by (intro zdiv_mono1) auto
  also have "\<dots> = rOut" using den by simp
  finally have le: "(?f * rOut) div ?den \<le> rOut" .
  show ?thesis
    using den num le by (simp add: calculateRate_def Let_def bigint_div_nonneg)
qed

theorem calculateRate_safe_witness:
  "0 < (5::int) \<and> (30::int) < 10000 \<and> (0::int) \<le> 0 \<and> (0::int) \<le> 7 \<and>
   (0::int) * 10000 + 5 * (10000 - 30) \<noteq> 0 \<and>
   (\<exists>r. calculateRate 0 7 5 30 = Inr r \<and> amountOut r \<le> 7)"
  using calculateRate_safe [of 5 30 0 7] by simp

subsection \<open>The slippage bound of a submitted trade\<close>

text \<open>
  Claim C3. The \<^verbatim>\<open>minProfit\<close> of the encoded call is meant to be
  \<open>expectedProfit \<cdot> (10000 - maxSlippageBps) div 10000\<close>. \<^verbatim>\<open>buildArbitrageParams\<close>
  computes \<open>expectedProfit \<cdot> (100 - maxSlippageBps) div 100\<close>: with the default
  \<^verbatim>\<open>maxSlippageBps = 50\<close> and an expected profit of 10000 the encoded value is 5000, where
  the claim's formula gives 9950.
\<close>

theorem buildArbitrageParams_percent:
  "maxSlippageBps defaultConfig = 50 \<and>
   minProfit (buildArbitrageParams defaultConfig (exampleOpportunity 10000)) = 5000 \<and>
   bigint_div (expectedProfit (exampleOpportunity 10000)
                 * (10000 - maxSlippageBps defaultConfig)) 10000 = 9950"
  by (simp add: buildArbitrageParams_def defaultConfig_def exampleOpportunity_def
        bigint_div_def)

lemma buildArbitrageParams_minProfit:
  "minProfit (buildArbitrageParams cfg opp) =
     bigint_div (expectedProfit opp * (100 - maxSlippageBps cfg)) 100"
  by (simp add: buildArbitrageParams_def)

subsection \<open>Dry run\<close>

text \<open>
  The executor is built with a wallet and a public client for every enabled chain of
  \<^verbatim>\<open>CHAIN_CONFIGS\<close>: the chains the monitor, built from the same list, has a detector for,
  and so the chains of the opportunities that reach \<^verbatim>\<open>execute\<close>.
\<close>

lemma newTradeExecutor_clients:
  assumes "c \<in> set (enabledChains cfg)" and "CHAIN_CONFIGS c = Some cc"
  shows "walletClients (newTradeExecutor cfg publicClient walletClient) c = Some (walletClient c)"
    and "publicClients (newTradeExecutor cfg publicClient walletClient) c = Some (publicClient c)"
    and "config (newTradeExecutor cfg publicClient walletClient) = cfg"
  using assms by (simp_all add: newTradeExecutor_def)

text \<open>
  Claim C9. When \<^verbatim>\<open>dryRun\<close> is enabled, \<^verbatim>\<open>execute\<close>, for an opportunity on a chain that has
  its clients and its entry in \<^verbatim>\<open>CHAIN_CONFIGS\<close>, returns a success result with the all-zero
  transaction hash, a profit equal to \<^verbatim>\<open>expectedProfit\<close> and the opportunity's gas estimate,
  and the chain state (every nonce and balance) is the one it was called with: nothing is
  signed or submitted.
\<close>

theorem execute_dryRun:
  assumes "dryRun (config ex)"
    and "walletClients ex (chain opp) = Some wc"
    and "publicClients ex (chain opp) = Some pc"
    and "CHAIN_CONFIGS (chain opp) = Some cc"
  shows "execute ex now opp w =
           (\<lparr>success = True, txHash = Some (''0x'' @ replicate 64 CHR ''0''),
             profit = Some (expectedProfit opp), gasUsed = Some (gasEstimate opp),
             error = None, blockNumber = None, result_timestamp = now\<rparr>, w)"
  using assms by (simp add: execute_def)

theorem execute_dryRun_witness:
  "dryRun (config (newTradeExecutor (defaultConfig\<lparr>dryRun := True\<rparr>)
                     (\<lambda>c. idleClient) (\<lambda>c. idleClient))) \<and>
   walletClients (newTradeExecutor (defaultConfig\<lparr>dryRun := True\<rparr>)
                     (\<lambda>c. idleClient) (\<lambda>c. idleClient))
     (chain (exampleOpportunity 10000)) = Some idleClient \<and>
   publicClients (newTradeExecutor (defaultConfig\<lparr>dryRun := True\<rparr>)
                     (\<lambda>c. idleClient) (\<lambda>c. idleClient))
     (chain (exampleOpportunity 10000)) = Some idleClient \<and>
   CHAIN_CONFIGS (chain (exampleOpportunity 10000))
     = Some \<lparr>arbitrage = ''0x0000000000000000000000000000000000000000'',
             nativeToken = ''0x82aF49447D8a07e3bd95BD0d56f35241523fBab1''\<rparr> \<and>
   execute (newTradeExecutor (defaultConfig\<lparr>dryRun := True\<rparr>)
              (\<lambda>c. idleClient) (\<lambda>c. idleClient)) 7
       (exampleOpportunity 10000) 5
     = (\<lparr>success = True, txHash = Some (''0x'' @ replicate 64 CHR ''0''),
         profit = Some 10000, gasUsed = Some 310000, error = None, blockNumber = None,
         result_timestamp = 7\<rparr>, 5)"
  using execute_dryRun [of "newTradeExecutor (defaultConfig\<lparr>dryRun := True\<rparr>)
              (\<lambda>c. idleClient) (\<lambda>c. idleClient)"
      "exampleOpportunity 10000" idleClient idleClient
      "\<lparr>arbitrage = ''0x0000000000000000000000000000000000000000'',
        nativeToken = ''0x82aF49447D8a07e3bd95BD0d56f35241523fBab1''\<rparr>" 7 5]
  by (simp add: exampleOpportunity_def newTradeExecutor_def CHAIN_CONFIGS_def defaultConfig_def)

text \<open>
  So a dry run of the executor the bot builds, on any enabled chain of \<^verbatim>\<open>CHAIN_CONFIGS\<close>,
  leaves the chain state as it was.
\<close>

lemma execute_dryRun_constructed:
  assumes "dryRun cfg" and "chain opp \<in> set (enabledChains cfg)"
    and "CHAIN_CONFIGS (chain opp) = Some cc"
  shows "execute (newTradeExecutor cfg publicClient walletClient) now opp w =
           (\<lparr>success = True, txHash = Some (''0x'' @ replicate 64 CHR ''0''),
             profit = Some (expectedProfit opp), gasUsed = Some (gasEstimate opp),
             error = None, blockNumber = None, result_timestamp = now\<rparr>, w)"
  using assms by (simp add: execute_def newTradeExecutor_def)

text \<open>Without \<^verbatim>\<open>dryRun\<close> the same call submits a transaction and the nonce advances.\<close>

lemma execute_live_example:
  "execute (newTradeExecutor defaultConfig (\<lambda>c. idleClient) (\<lambda>c. idleClient))
       7 (exampleOpportunity 10000) 5
     = (\<lparr>success = True, txHash = Some ''0xabc'', profit = Some 10000,
         gasUsed = Some 250000, error = None, blockNumber = Some 2,
         result_timestamp = 7\<rparr>, 6)"
  by (simp add: execute_def executeLive_def simulate_def executeStandard_def idleClient_def
        exampleOpportunity_def newTradeExecutor_def CHAIN_CONFIGS_def defaultConfig_def)

subsection \<open>The opportunity queue\<close>

text \<open>
  The valuation rounds as the doubles of the handler do: an expected profit of
  \<open>17433333333333331\<close> wei with a gas estimate of \<open>470000\<close> is worth exactly 10 USD net,
  where the exact quotient is slightly below 10, and is queued under the default
  threshold of 10 USD.
\<close>

lemma valueUsd_rounds:
  "netProfitUsd (valueUsd ((exampleOpportunity 17433333333333331)\<lparr>gasEstimate := 470000\<rparr>))
     = 10 \<and>
   enqueueAll defaultConfig
       [(exampleOpportunity 17433333333333331)\<lparr>gasEstimate := 470000\<rparr>] []
     = [valueUsd ((exampleOpportunity 17433333333333331)\<lparr>gasEstimate := 470000\<rparr>)]"
  by code_simp

text \<open>
  Claim C7, as stated, fails: the handler never looks at the queue. An opportunity whose
  pool sequence equals that of a pending one is pushed all the same.
\<close>

theorem enqueueAll_keeps_duplicate:
  "enqueueAll defaultConfig [exampleOpportunity (10 ^ 18)]
       [valueUsd (exampleOpportunity (10 ^ 18))]
     = [valueUsd (exampleOpportunity (10 ^ 18)), valueUsd (exampleOpportunity (10 ^ 18))] \<and>
   map pool (path (exampleOpportunity (10 ^ 18)))
     = map pool (path (valueUsd (exampleOpportunity (10 ^ 18))))"
  by code_simp

text \<open>
  Claim C7, amended. On enqueue an opportunity is added exactly when its net profit in
  USD is at least \<^verbatim>\<open>minProfitUsd\<close>: the queue after the handler's loop is the queue before
  it followed by the valued opportunities that pass this test, in their order, whatever
  is pending.
\<close>

theorem enqueueAll_filter:
  "enqueueAll cfg opps q =
     q @ filter (\<lambda>opp. minProfitUsd cfg \<le> netProfitUsd opp) (map valueUsd opps)"
  by (induction opps arbitrary: q) simp_all

theorem enqueueAll_filter_witness:
  "enqueueAll defaultConfig [exampleOpportunity (10 ^ 18), exampleOpportunity 10000] []
     = [valueUsd (exampleOpportunity (10 ^ 18))]"
proof -
  have "enqueueAll defaultConfig [exampleOpportunity (10 ^ 18), exampleOpportunity 10000] []
          = [] @ filter (\<lambda>opp. minProfitUsd defaultConfig \<le> netProfitUsd opp)
                   (map valueUsd [exampleOpportunity (10 ^ 18), exampleOpportunity 10000])"
    by (rule enqueueAll_filter)
  also have "\<dots> = [valueUsd (exampleOpportunity (10 ^ 18))]"
    by code_simp
  finally show ?thesis .
qed

subsection \<open>The contract's circuit breaker\<close>









subsection \<open>Bounded-depth enumeration\<close>

text \<open>
  Claim C5. The enumeration is meant to give the cycles of 2 up to K = 3 hops from the
  source (the source's comment: "direct 2-hop and 3-hop cycles"), each without a repeated
  (from, to, pool) triple. \<^verbatim>\<open>findDirectCycles\<close> closes a cycle only when the path already
  has two edges, and extends a path while it has fewer than K edges: on two pools \<open>P\<close> and
  \<open>Q\<close> between \<open>A\<close> and \<open>B\<close> it returns eight cycles of four hops, the first of which takes
  the edge \<open>B \<rightarrow> A\<close> of pool \<open>P\<close> twice, and the two-hop cycle \<open>A \<rightarrow> B\<close> through \<open>P\<close>, \<open>B \<rightarrow> A\<close>
  through \<open>Q\<close>, both edges of the graph, is not among them.
\<close>

theorem findDirectCycles_misses_two_hop:
  "map (map edge_pool) (findDirectCycles twoPools ''0xA'' 3) =
     [[''0xP'', ''0xP'', ''0xQ'', ''0xP''], [''0xP'', ''0xP'', ''0xQ'', ''0xQ''],
      [''0xP'', ''0xQ'', ''0xQ'', ''0xP''], [''0xP'', ''0xQ'', ''0xQ'', ''0xQ''],
      [''0xQ'', ''0xP'', ''0xP'', ''0xP''], [''0xQ'', ''0xP'', ''0xP'', ''0xQ''],
      [''0xQ'', ''0xQ'', ''0xP'', ''0xP''], [''0xQ'', ''0xQ'', ''0xP'', ''0xQ'']] \<and>
   v2Edge ''0xA'' ''0xB'' ''0xP'' (Num 0) 1000 1000 \<in> set (edges_get twoPools ''0xA'') \<and>
   v2Edge ''0xB'' ''0xA'' ''0xQ'' (Num 0) 1000 1000 \<in> set (edges_get twoPools ''0xB'') \<and>
   [v2Edge ''0xA'' ''0xB'' ''0xP'' (Num 0) 1000 1000,
    v2Edge ''0xB'' ''0xA'' ''0xQ'' (Num 0) 1000 1000]
     \<notin> set (findDirectCycles twoPools ''0xA'' 3)"
  by code_simp

text \<open>No cycle of fewer than three hops is ever returned, and none of more than K + 1.\<close>

lemma dfs_length:
  "c \<in> set (dfs g source maxHops current pth visited)
     \<Longrightarrow> 3 \<le> length c \<and> length c \<le> maxHops + 1"
proof (induction g source maxHops current pth visited rule: dfs.induct)
  case (1 g source maxHops current pth visited)
  have unfold: "dfs g source maxHops current pth visited =
     (if length pth > maxHops then []
      else concat (map (\<lambda>edge.
             if edge_to edge = source \<and> length pth \<ge> 2 then [pth @ [edge]]
             else if edgeKey edge \<notin> set visited \<and> length pth < maxHops
                  then dfs g source maxHops (edge_to edge) (pth @ [edge]) (edgeKey edge # visited)
                  else [])
           (edges_get g current)))"
    by (rule dfs.simps)
  from "1.prems" have le: "\<not> length pth > maxHops"
    unfolding unfold by (cases "length pth > maxHops") simp_all
  with "1.prems" obtain edge where e: "edge \<in> set (edges_get g current)"
    and c: "c \<in> set (if edge_to edge = source \<and> length pth \<ge> 2 then [pth @ [edge]]
             else if edgeKey edge \<notin> set visited \<and> length pth < maxHops
                  then dfs g source maxHops (edge_to edge) (pth @ [edge]) (edgeKey edge # visited)
                  else [])"
    unfolding unfold by auto
  show ?case
  proof (cases "edge_to edge = source \<and> length pth \<ge> 2")
    case True
    with c le show ?thesis by auto
  next
    case False
    show ?thesis
    proof (cases "edgeKey edge \<notin> set visited \<and> length pth < maxHops")
      case True
      with c False
      have c': "c \<in> set (dfs g source maxHops (edge_to edge) (pth @ [edge]) (edgeKey edge # visited))"
        by simp
      from "1.IH" [OF le e False True c'] show ?thesis .
    next
      case k: False
      with c False show ?thesis by simp
    qed
  qed
qed

lemma findDirectCycles_length:
  "c \<in> set (findDirectCycles g source maxHops) \<Longrightarrow> 3 \<le> length c \<and> length c \<le> maxHops + 1"
  unfolding findDirectCycles_def by (rule dfs_length)

subsection \<open>The detector's minimum profit\<close>

text \<open>
  Claim C1. A returned opportunity is meant to satisfy \<open>expectedOutput \<ge> inputAmount +
  minProfit\<close>, the minimum being \<^verbatim>\<open>minProfitBps\<close> of the input. The detector stores
  \<^verbatim>\<open>minProfitBps\<close> and never reads it; it keeps every opportunity with a positive profit.
  On the triangle, with the default 10 basis points and an input of \<open>10^18\<close>, it returns
  one opportunity whose output exceeds the input by less than 5 basis points.
\<close>

theorem detector_ignores_minProfitBps:
  "minProfitBps triangle = 10 \<and>
   map_sum id (map (\<lambda>opp. (inputAmount opp, expectedOutput opp, map pool (path opp))))
       (findArbitrageOpportunities triangle 0 ''0xA'' (10 ^ 18))
     = Inr [(10 ^ 18, 1000438727033112015, [''0xP1'', ''0xP2'', ''0xP3''])] \<and>
   (1000438727033112015 :: int) < 10 ^ 18 + bigint_div (10 ^ 18 * minProfitBps triangle) 10000"
  by code_simp

text \<open>
  What holds of every returned opportunity: the profit is positive, not more, and the
  expected output is the sequential quote of its cycle.
\<close>

lemma buildOpportunity_Some:
  assumes "buildOpportunity cid now cycle input = Inr (Some opp)"
  shows "cycle \<noteq> [] \<and> quoteLoop cycle input [] = Inr (path opp, expectedOutput opp) \<and>
         inputAmount opp = input \<and> expectedProfit opp = expectedOutput opp - input"
  using assms
  by (auto simp: buildOpportunity_def split: list.splits sum.splits prod.splits)

lemma quoted_build:
  "buildOpportunity cid now cycle input = Inr (Some opp) \<Longrightarrow> 0 < expectedProfit opp
     \<Longrightarrow> quoted input opp"
  using buildOpportunity_Some [of cid now cycle input opp] by (auto simp: quoted_def)

lemma negativeLoop_quoted:
  "negativeLoop cid now predecessor src input vs acc = Inr res
     \<Longrightarrow> list_all (quoted input) acc \<Longrightarrow> list_all (quoted input) res"
proof (induction vs arbitrary: acc)
  case Nil
  then show ?case by simp
next
  case (Cons v vs)
  show ?case
  proof (cases "extractCycle v predecessor")
    case Nil
    with Cons show ?thesis by simp
  next
    case c: (Cons e es)
    show ?thesis
    proof (cases "edge_from e = src")
      case False
      with c Cons show ?thesis by simp
    next
      case True
      show ?thesis
      proof (cases "buildOpportunity cid now (e # es) input")
        case (Inl err)
        with c True Cons.prems show ?thesis by simp
      next
        case (Inr r)
        show ?thesis
        proof (cases r)
          case None
          with Inr c True Cons show ?thesis by simp
        next
          case (Some opp)
          show ?thesis
          proof (cases "0 < expectedProfit opp")
            case False
            with Some Inr c True Cons show ?thesis by simp
          next
            case pos: True
            have "quoted input opp" using Inr Some pos by (auto intro: quoted_build)
            with Cons.prems(2) have "list_all (quoted input) (acc @ [opp])" by simp
            moreover have "negativeLoop cid now predecessor src input vs (acc @ [opp]) = Inr res"
              using Cons.prems(1) c True Inr Some pos by simp
            ultimately show ?thesis by (rule Cons.IH [rotated])
          qed
        qed
      qed
    qed
  qed
qed

lemma directLoop_quoted:
  "directLoop cid now input cycles acc = Inr res
     \<Longrightarrow> list_all (quoted input) acc \<Longrightarrow> list_all (quoted input) res"
proof (induction cycles arbitrary: acc)
  case Nil
  then show ?case by simp
next
  case (Cons cycle cycles)
  show ?case
  proof (cases "buildOpportunity cid now cycle input")
    case (Inl err)
    with Cons.prems show ?thesis by simp
  next
    case (Inr r)
    show ?thesis
    proof (cases r)
      case None
      with Inr Cons show ?thesis by simp
    next
      case (Some opp)
      show ?thesis
      proof (cases "0 < expectedProfit opp \<and> \<not> isDuplicate acc opp")
        case False
        with Some Inr Cons show ?thesis by auto
      next
        case pos: True
        have "quoted input opp" using Inr Some pos by (auto intro: quoted_build)
        with Cons.prems(2) have "list_all (quoted input) (acc @ [opp])" by simp
        moreover have "directLoop cid now input cycles (acc @ [opp]) = Inr res"
          using Cons.prems(1) Inr Some pos by simp
        ultimately show ?thesis by (rule Cons.IH [rotated])
      qed
    qed
  qed
qed

lemma detector_guarantee:
  assumes "findArbitrageOpportunities d now src input = Inr opps"
  shows "list_all (quoted input) opps"
proof (cases "length (vertices (graph d)) = 0")
  case True
  with assms show ?thesis by (simp add: findArbitrageOpportunities_def)
next
  case False
  obtain distance predecessor where
    r: "relax_loop (length (vertices (graph d)) - 1) (graph d)
          (AList.update src (Num 0) (map (\<lambda>v. (v, PosInf)) (vertices (graph d))),
           map (\<lambda>v. (v, None)) (vertices (graph d))) = (distance, predecessor)"
    by (cases "relax_loop (length (vertices (graph d)) - 1) (graph d)
          (AList.update src (Num 0) (map (\<lambda>v. (v, PosInf)) (vertices (graph d))),
           map (\<lambda>v. (v, None)) (vertices (graph d)))")
  from assms False r obtain neg found where
    n: "negativeLoop (chainId d) now predecessor src input
          (negativeCycleVertices (graph d) distance) [] = Inr neg"
    and f: "directLoop (chainId d) now input (findDirectCycles (graph d) src 3) neg = Inr found"
    and o: "opps = sort_key (\<lambda>opp. - expectedProfit opp) found"
    by (auto simp: findArbitrageOpportunities_def Let_def split: sum.splits)
  have "list_all (quoted input) neg" using negativeLoop_quoted [OF n] by simp
  then have "list_all (quoted input) found" by (rule directLoop_quoted [OF f])
  then show ?thesis unfolding o by (simp add: list_all_iff)
qed

subsection \<open>Edges derived from a pool snapshot\<close>

lemma edges_get_addEdge_same:
  "edges_get (addEdge e g) (edge_from e) =
     remove_first (\<lambda>x. edge_to x = edge_to e \<and> edge_pool x = edge_pool e)
       (edges_get g (edge_from e)) @ [e]"
  by (simp add: addEdge_def edges_get_def Let_def update_conv')

lemma edges_get_addEdge_other:
  "a \<noteq> edge_from e \<Longrightarrow> edges_get (addEdge e g) a = edges_get g a"
  by (simp add: addEdge_def edges_get_def Let_def update_conv')

lemma calculateRate_value:
  assumes "0 < rIn * 10000 + dx * (10000 - fee)" "0 \<le> dx * (10000 - fee) * rOut"
  shows "calculateRate rIn rOut dx fee =
           Inr \<lparr>amountOut = (dx * (10000 - fee) * rOut) div (rIn * 10000 + dx * (10000 - fee)),
                rate = number_div ((dx * (10000 - fee) * rOut)
                                     div (rIn * 10000 + dx * (10000 - fee))) dx\<rparr>"
  using assms by (simp add: calculateRate_def Let_def bigint_div_nonneg)

lemma updateReserves_effect:
  assumes "0 \<le> r0" "0 \<le> r1" "sub_fee sub \<le> 10000"
    and "sub_fee sub < 10000 \<or> (0 < r0 \<and> 0 < r1)"
    and "detectors m cid = Some d"
  shows "updateReserves now cid sub r0 r1 m =
     (m\<lparr>reserves := (reserves m)((cid, sub_pool sub) \<mapsto>
                  \<lparr>pr_pool = sub_pool sub, pr_dex = sub_dex sub, pr_token0 = sub_token0 sub,
                   pr_token1 = sub_token1 sub, pr_reserve0 = r0, pr_reserve1 = r1,
                   pr_fee = sub_fee sub, pr_timestamp = now\<rparr>),
         detectors := (detectors m)(cid \<mapsto> d\<lparr>graph :=
            addEdge (derivedEdge sub False r1 r0)
              (addEdge (derivedEdge sub True r0 r1) (graph d))\<rparr>)\<rparr>, None)"
proof -
  have f: "(0::int) \<le> 10 ^ 18 * (10000 - sub_fee sub)" using assms by simp
  have d1: "0 < r0 * 10000 + 10 ^ 18 * (10000 - sub_fee sub)"
    using assms(1,2,4) f by (cases "sub_fee sub < 10000") auto
  have d2: "0 < r1 * 10000 + 10 ^ 18 * (10000 - sub_fee sub)"
    using assms(1,2,4) f by (cases "sub_fee sub < 10000") auto
  have n1: "0 \<le> 10 ^ 18 * (10000 - sub_fee sub) * r1" using f assms by simp
  have n2: "0 \<le> 10 ^ 18 * (10000 - sub_fee sub) * r0" using f assms by simp
  note q1 = calculateRate_value [OF d1 n1] and q2 = calculateRate_value [OF d2 n2]
  show ?thesis
    unfolding updateReserves_def Let_def q1 q2 derivedEdge_def refQuote_def
    using assms(5) by simp
qed

lemma refQuote_nonneg:
  assumes "0 < rIn" "0 \<le> rOut" "fee \<le> 10000"
  shows "0 \<le> refQuote rIn rOut fee"
proof -
  have f: "(0::int) \<le> 10 ^ 18 * (10000 - fee)" using assms by simp
  then have "0 < rIn * 10000 + 10 ^ 18 * (10000 - fee)" using assms by linarith
  moreover have "0 \<le> 10 ^ 18 * (10000 - fee) * rOut" using f assms by simp
  ultimately show ?thesis unfolding refQuote_def by (simp add: pos_imp_zdiv_nonneg_iff)
qed

lemma refQuote_bound:
  assumes "0 < rIn" "0 \<le> rOut" "0 \<le> fee" "fee \<le> 10000"
  shows "refQuote rIn rOut fee * rIn \<le> 10 ^ 18 * rOut"
proof -
  define f :: int where "f = 10 ^ 18 * (10000 - fee)"
  define den where "den = rIn * 10000 + f"
  define q where "q = refQuote rIn rOut fee"
  have f: "0 \<le> f" using assms by (simp add: f_def)
  then have den: "0 < den" using assms by (simp add: den_def)
  have q: "q = (f * rOut) div den" by (simp add: q_def refQuote_def f_def den_def)
  have q0: "0 \<le> q" using assms by (auto simp: q_def intro!: refQuote_nonneg)
  have "den * q + (f * rOut) mod den = f * rOut"
    unfolding q by (rule mult_div_mod_eq)
  moreover have "0 \<le> (f * rOut) mod den" using den by simp
  ultimately have "den * q \<le> f * rOut" by linarith
  moreover have "den * q = 10000 * (q * rIn) + q * f"
    by (simp add: den_def algebra_simps)
  moreover have "0 \<le> q * f" using q0 f by simp
  moreover have "f * rOut \<le> (10 ^ 18 * 10000) * rOut"
    using assms by (intro mult_right_mono) (auto simp: f_def)
  ultimately have "10000 * (q * rIn) \<le> 10000 * (10 ^ 18 * rOut)" by linarith
  then show ?thesis unfolding q_def by (simp add: mult.commute)
qed

lemma refQuote_product:
  assumes "0 < r0" "0 < r1" "0 \<le> fee" "fee \<le> 10000"
  shows "refQuote r0 r1 fee * refQuote r1 r0 fee \<le> 10 ^ 36"
proof -
  define a where "a = refQuote r0 r1 fee"
  define b where "b = refQuote r1 r0 fee"
  define D :: int where "D = 10 ^ 18"
  have a0: "0 \<le> a" and b0: "0 \<le> b"
    using assms by (auto simp: a_def b_def intro!: refQuote_nonneg)
  have a: "a * r0 \<le> D * r1"
    unfolding a_def D_def using assms by (intro refQuote_bound) auto
  have b: "b * r1 \<le> D * r0"
    unfolding b_def D_def using assms by (intro refQuote_bound) auto
  have D0: "0 \<le> D * r1" using assms by (simp add: D_def)
  have br: "0 \<le> b * r1" using b0 assms by simp
  have "(a * r0) * (b * r1) \<le> (D * r1) * (D * r0)"
    by (rule mult_mono [OF a b D0 br])
  then have "(a * b) * (r0 * r1) \<le> (D * D) * (r0 * r1)"
    by (simp add: mult_ac)
  moreover have "0 < r0 * r1" using assms by simp
  ultimately have "a * b \<le> D * D" by (simp only: mult_le_cancel_right_pos)
  then show ?thesis by (simp add: a_def b_def D_def)
qed

lemma weights_roundtrip:
  assumes "0 \<le> a" "0 \<le> b" "a * b \<le> 10 ^ 36"
  shows "number_le (Num 0)
           (number_add (calculateWeight (number_div a (10 ^ 18)))
                       (calculateWeight (number_div b (10 ^ 18))))"
proof (cases "a = 0 \<or> b = 0")
  case True
  then show ?thesis using assms by (auto simp: number_div_def)
next
  case False
  with assms have a: "0 < a" and b: "0 < b" by auto
  define x where "x = real_of_int a / 10 ^ 18"
  define y where "y = real_of_int b / 10 ^ 18"
  have x: "0 < x" and y: "0 < y" using a b by (simp_all add: x_def y_def)
  have "real_of_int (a * b) \<le> real_of_int (10 ^ 36)"
    using assms(3) by (simp only: of_int_le_iff)
  then have "x * y \<le> 1" by (simp add: x_def y_def field_simps)
  moreover have "0 < x * y" using x y by simp
  ultimately have "ln (x * y) \<le> 0" by simp
  then have "ln x + ln y \<le> 0" using x y by (simp add: ln_mult_pos)
  moreover have "number_div a (10 ^ 18) = Num x" "number_div b (10 ^ 18) = Num y"
    by (simp_all add: number_div_def x_def y_def)
  ultimately show ?thesis using x y by simp
qed

text \<open>
  Claim C6. For a pool snapshot with a positive fee (in basis points, so at most 10000)
  and positive reserves, of a pool between two different tokens on a chain that has a
  detector, \<^verbatim>\<open>updateReserves\<close> returns without throwing, both derived edges are in the
  graph (the forward one among the edges from token0, the reverse one among those from
  token1), and their weights satisfy \<open>weight(A \<rightarrow> B) + weight(B \<rightarrow> A) \<ge> 0\<close>. The weights are
  \<open>-ln\<close> of the rates in real arithmetic, or Infinity for a rate of zero.
\<close>

theorem pool_edges_roundtrip:
  assumes "0 < sub_fee sub" "sub_fee sub \<le> 10000" "0 < r0" "0 < r1"
    and "detectors m cid = Some d" "sub_token0 sub \<noteq> sub_token1 sub"
  shows "\<exists>m' d'. updateReserves now cid sub r0 r1 m = (m', None) \<and>
           detectors m' cid = Some d' \<and>
           derivedEdge sub True r0 r1 \<in> set (edges_get (graph d') (sub_token0 sub)) \<and>
           derivedEdge sub False r1 r0 \<in> set (edges_get (graph d') (sub_token1 sub)) \<and>
           number_le (Num 0)
             (number_add (weight (derivedEdge sub True r0 r1))
                         (weight (derivedEdge sub False r1 r0)))"
proof -
  have u: "updateReserves now cid sub r0 r1 m =
     (m\<lparr>reserves := (reserves m)((cid, sub_pool sub) \<mapsto>
                  \<lparr>pr_pool = sub_pool sub, pr_dex = sub_dex sub, pr_token0 = sub_token0 sub,
                   pr_token1 = sub_token1 sub, pr_reserve0 = r0, pr_reserve1 = r1,
                   pr_fee = sub_fee sub, pr_timestamp = now\<rparr>),
         detectors := (detectors m)(cid \<mapsto> d\<lparr>graph :=
            addEdge (derivedEdge sub False r1 r0)
              (addEdge (derivedEdge sub True r0 r1) (graph d))\<rparr>)\<rparr>, None)"
    using assms by (intro updateReserves_effect) auto
  let ?g = "addEdge (derivedEdge sub False r1 r0)
              (addEdge (derivedEdge sub True r0 r1) (graph d))"
  have fwd: "derivedEdge sub True r0 r1 \<in> set (edges_get ?g (sub_token0 sub))"
  proof -
    have "edges_get ?g (sub_token0 sub)
            = edges_get (addEdge (derivedEdge sub True r0 r1) (graph d)) (sub_token0 sub)"
      using assms(6) by (intro edges_get_addEdge_other) (simp add: derivedEdge_def)
    moreover have "edge_from (derivedEdge sub True r0 r1) = sub_token0 sub"
      by (simp add: derivedEdge_def)
    ultimately show ?thesis
      using edges_get_addEdge_same [of "derivedEdge sub True r0 r1" "graph d"] by simp
  qed
  have bwd: "derivedEdge sub False r1 r0 \<in> set (edges_get ?g (sub_token1 sub))"
  proof -
    have "edge_from (derivedEdge sub False r1 r0) = sub_token1 sub"
      by (simp add: derivedEdge_def)
    then show ?thesis
      using edges_get_addEdge_same [of "derivedEdge sub False r1 r0"
              "addEdge (derivedEdge sub True r0 r1) (graph d)"] by simp
  qed
  have w: "number_le (Num 0)
             (number_add (weight (derivedEdge sub True r0 r1))
                         (weight (derivedEdge sub False r1 r0)))"
  proof -
    have "0 \<le> refQuote r0 r1 (sub_fee sub)" "0 \<le> refQuote r1 r0 (sub_fee sub)"
      using assms by (auto intro!: refQuote_nonneg)
    moreover have "refQuote r0 r1 (sub_fee sub) * refQuote r1 r0 (sub_fee sub) \<le> 10 ^ 36"
      using assms by (intro refQuote_product) auto
    ultimately show ?thesis
      unfolding derivedEdge_def using weights_roundtrip by simp
  qed
  show ?thesis
    unfolding u using fwd bwd w by simp
qed

theorem pool_edges_roundtrip_witness:
  "0 < sub_fee exampleSub \<and> sub_fee exampleSub \<le> 10000 \<and> (0::int) < 1000 \<and> (0::int) < 2000 \<and>
   detectors exampleMonitor 42161 = Some (newDetector 42161 10) \<and>
   sub_token0 exampleSub \<noteq> sub_token1 exampleSub \<and>
   (\<exists>m' d'. updateReserves 0 42161 exampleSub 1000 2000 exampleMonitor = (m', None) \<and>
           detectors m' 42161 = Some d' \<and>
           derivedEdge exampleSub True 1000 2000 \<in> set (edges_get (graph d') (sub_token0 exampleSub)) \<and>
           derivedEdge exampleSub False 2000 1000 \<in> set (edges_get (graph d') (sub_token1 exampleSub)) \<and>
           number_le (Num 0)
             (number_add (weight (derivedEdge exampleSub True 1000 2000))
                         (weight (derivedEdge exampleSub False 2000 1000))))"
proof -
  have h: "0 < sub_fee exampleSub" "sub_fee exampleSub \<le> 10000" "(0::int) < 1000" "(0::int) < 2000"
    "detectors exampleMonitor 42161 = Some (newDetector 42161 10)"
    "sub_token0 exampleSub \<noteq> sub_token1 exampleSub"
    by (simp_all add: exampleSub_def exampleMonitor_def)
  from pool_edges_roundtrip [OF h, of 0] h show ?thesis by blast
qed

text \<open>
  The quote of a cycle reads the reserves of an edge by the order of the two addresses.
  \<^verbatim>\<open>updateReserves\<close> stores the reserves of each derived edge input side first, so for a
  pool whose token0 is the smaller address the reverse edge is quoted with the reserves
  of the forward direction, not with those its weight was computed from.
\<close>

lemma reverse_edge_reserves_swapped:
  assumes "toLowerCase (sub_token0 sub) < toLowerCase (sub_token1 sub)"
  shows "reserveIn (derivedEdge sub True r0 r1) = r0 \<and>
         reserveOut (derivedEdge sub True r0 r1) = r1 \<and>
         reserveIn (derivedEdge sub False r1 r0) = r0 \<and>
         reserveOut (derivedEdge sub False r1 r0) = r1"
proof -
  from assms have "\<not> toLowerCase (sub_token1 sub) < toLowerCase (sub_token0 sub)"
    by (simp add: not_less less_imp_le)
  with assms show ?thesis
    by (simp add: reserveIn_def reserveOut_def isToken0ToToken1_def derivedEdge_def)
qed

subsection \<open>Delivery of Sync events\<close>














end
